theory Spec2Isabelle
  imports Main
begin

section \<open>Data delivered by the external client library\<close>

text \<open>
  The types \<open>AuctionStatus\<close>, \<open>ExpressLaneController\<close> and \<open>TimeboostedTransaction\<close> are
  declared by the client library, outside the repository. The records below carry the fields
  the components compute with; the remaining fields are only printed. JavaScript numbers that
  hold seconds and millisecond clock readings are integers here.
\<close>

datatype phase = Bidding | Closing | Resolving | Active | Unknown

record auction_status =
  currentPhase :: phase
  timeUntilAuctionCloses :: int
  timeUntilRoundStarts :: int

record express_lane_controller =
  currentController :: "string option"
  timeRemainingInRound :: int

text \<open>What a rejected promise or a throwing call hands to \<open>catch\<close>.\<close>

datatype thrown = ErrorObject string | OtherValue

text \<open>\<open>err instanceof Error ? err.message : 'Unknown error occurred'\<close>\<close>

definition errorMessage :: "thrown \<Rightarrow> string" where
  "errorMessage err = (case err of ErrorObject m \<Rightarrow> m | OtherValue \<Rightarrow> ''Unknown error occurred'')"


section \<open>The countdown updater of the one-second intervals\<close>

text \<open>
  The three intervals of the two countdown components all pass the same function to their
  state setter: \<open>prev => { if (prev === null || prev <= 0) return null; return prev - 1; }\<close>.
  The test is on the previous value, before the subtraction.
\<close>

definition countdownUpdater :: "int option \<Rightarrow> int option" where
  "countdownUpdater prev =
     (case prev of None \<Rightarrow> None | Some p \<Rightarrow> (if p \<le> 0 then None else Some (p - 1)))"


section \<open>Component \<open>AuctionStatus\<close>\<close>

record auction_state =
  status :: "auction_status option"
  loading :: bool
  error :: "string option"
  isInitialLoad :: bool
  localCountdown :: "int option"
  localRoundStartCountdown :: "int option"
  lastSyncTimeRef :: int

text \<open>The values of the \<open>useState\<close> and \<open>useRef\<close> initialisers.\<close>

definition auctionInitial :: auction_state where
  "auctionInitial =
     \<lparr> status = None, loading = False, error = None, isInitialLoad = True,
       localCountdown = None, localRoundStartCountdown = None, lastSyncTimeRef = 0 \<rparr>"

text \<open>
  \<open>fetchStatus\<close>: the argument is the outcome of \<open>await client.getAuctionStatus()\<close>,
  \<open>Inl\<close> what was thrown, \<open>Inr\<close> the status returned.
\<close>

definition fetchStatus :: "thrown + auction_status \<Rightarrow> auction_state \<Rightarrow> auction_state" where
  "fetchStatus result st =
     (let st1 = st\<lparr> loading := True, error := None \<rparr> in
      (case result of
         Inr auctionStatus \<Rightarrow>
           st1\<lparr> status := Some auctionStatus, isInitialLoad := False, loading := False \<rparr>
       | Inl err \<Rightarrow>
           st1\<lparr> error := Some (errorMessage err), loading := False \<rparr>))"

text \<open>
  The effect on \<open>[status]\<close>, run at clock reading \<open>now\<close>. \<open>!localCountdown\<close> holds for
  \<open>null\<close> and for \<open>0\<close>; the disjunction is evaluated left to right, so the subtraction is only
  reached with a number.
\<close>

definition statusEffect :: "int \<Rightarrow> auction_state \<Rightarrow> auction_state" where
  "statusEffect now st =
     (case status st of
        None \<Rightarrow> st
      | Some s \<Rightarrow>
          (let timeSinceLastSync = now - lastSyncTimeRef st;
               st' =
                 (if currentPhase s = Bidding then
                    (if (case localCountdown st of
                           None \<Rightarrow> True
                         | Some c \<Rightarrow> c = 0 \<or> timeSinceLastSync > 3000
                                      \<or> \<bar>c - timeUntilAuctionCloses s\<bar> > 2)
                     then st\<lparr> localCountdown := Some (timeUntilAuctionCloses s) \<rparr>
                     else st)
                    \<lparr> localRoundStartCountdown := None \<rparr>
                  else if currentPhase s = Closing \<or> currentPhase s = Resolving then
                    (let st2 = st\<lparr> localCountdown := None \<rparr> in
                     (if (case localRoundStartCountdown st of
                            None \<Rightarrow> True
                          | Some c \<Rightarrow> c = 0 \<or> timeSinceLastSync > 3000
                                       \<or> \<bar>c - timeUntilRoundStarts s\<bar> > 2)
                      then st2\<lparr> localRoundStartCountdown := Some (timeUntilRoundStarts s) \<rparr>
                      else st2))
                  else st\<lparr> localCountdown := None, localRoundStartCountdown := None \<rparr>)
           in st'\<lparr> lastSyncTimeRef := now \<rparr>))"

text \<open>
  One poll: \<open>fetchStatus\<close>, and, when it stored a new status object, the effect that depends
  on \<open>status\<close>. A failed fetch stores no status, so the effect does not run.
\<close>

definition pollStatus :: "thrown + auction_status \<Rightarrow> int \<Rightarrow> auction_state \<Rightarrow> auction_state" where
  "pollStatus result now st =
     (case result of
        Inr _ \<Rightarrow> statusEffect now (fetchStatus result st)
      | Inl _ \<Rightarrow> fetchStatus result st)"

text \<open>The callbacks of the two intervals.\<close>

definition tickCountdown :: "auction_state \<Rightarrow> auction_state" where
  "tickCountdown st = st\<lparr> localCountdown := countdownUpdater (localCountdown st) \<rparr>"

definition tickRoundStart :: "auction_state \<Rightarrow> auction_state" where
  "tickRoundStart st =
     st\<lparr> localRoundStartCountdown := countdownUpdater (localRoundStartCountdown st) \<rparr>"

text \<open>The callbacks that reach the component, and a run of them from the initial state.\<close>

datatype auction_call =
    Poll "thrown + auction_status" int
  | TickCountdown
  | TickRoundStart

fun auctionStep :: "auction_call \<Rightarrow> auction_state \<Rightarrow> auction_state" where
  "auctionStep (Poll result now) st = pollStatus result now st"
| "auctionStep TickCountdown st = tickCountdown st"
| "auctionStep TickRoundStart st = tickRoundStart st"

fun auctionRun :: "auction_call list \<Rightarrow> auction_state \<Rightarrow> auction_state" where
  "auctionRun [] st = st"
| "auctionRun (c # cs) st = auctionRun cs (auctionStep c st)"


section \<open>Component \<open>ExpressLaneController\<close>\<close>

record controller_state =
  controller :: "express_lane_controller option"
  loading_c :: bool
  error_c :: "string option"
  isInitialLoad_c :: bool
  localTimeRemaining :: "int option"
  lastSyncTimeRef_c :: int

definition controllerInitial :: controller_state where
  "controllerInitial =
     \<lparr> controller = None, loading_c = False, error_c = None, isInitialLoad_c = True,
       localTimeRemaining = None, lastSyncTimeRef_c = 0 \<rparr>"

definition fetchController ::
  "thrown + express_lane_controller \<Rightarrow> controller_state \<Rightarrow> controller_state" where
  "fetchController result st =
     (let st1 = st\<lparr> loading_c := True, error_c := None \<rparr> in
      (case result of
         Inr controllerInfo \<Rightarrow>
           st1\<lparr> controller := Some controllerInfo, isInitialLoad_c := False, loading_c := False \<rparr>
       | Inl err \<Rightarrow>
           st1\<lparr> error_c := Some (errorMessage err), loading_c := False \<rparr>))"

text \<open>
  The effect on \<open>[controller]\<close>. \<open>!controller.currentController\<close> holds for \<open>null\<close> and for
  the empty string; in that case the effect returns before it reads the clock.
\<close>

definition controllerEffect :: "int \<Rightarrow> controller_state \<Rightarrow> controller_state" where
  "controllerEffect now st =
     (case controller st of
        None \<Rightarrow> st\<lparr> localTimeRemaining := None \<rparr>
      | Some c \<Rightarrow>
          (if currentController c = None \<or> currentController c = Some [] then
             st\<lparr> localTimeRemaining := None \<rparr>
           else
             (let timeSinceLastSync = now - lastSyncTimeRef_c st;
                  st' =
                    (if (case localTimeRemaining st of
                           None \<Rightarrow> True
                         | Some r \<Rightarrow> r = 0 \<or> timeSinceLastSync > 3000
                                      \<or> \<bar>r - timeRemainingInRound c\<bar> > 2)
                     then st\<lparr> localTimeRemaining := Some (timeRemainingInRound c) \<rparr>
                     else st)
              in st'\<lparr> lastSyncTimeRef_c := now \<rparr>)))"

definition pollController ::
  "thrown + express_lane_controller \<Rightarrow> int \<Rightarrow> controller_state \<Rightarrow> controller_state" where
  "pollController result now st =
     (case result of
        Inr _ \<Rightarrow> controllerEffect now (fetchController result st)
      | Inl _ \<Rightarrow> fetchController result st)"

definition tickTimeRemaining :: "controller_state \<Rightarrow> controller_state" where
  "tickTimeRemaining st = st\<lparr> localTimeRemaining := countdownUpdater (localTimeRemaining st) \<rparr>"


section \<open>Component \<open>StreamTimeboostedTxsComponent\<close>\<close>

text \<open>
  \<open>TransactionWithTimestamp\<close>: the fields of the library's transaction, kept as one opaque
  value, and the clock reading taken when the callback ran.
\<close>

record 'tx transaction_with_timestamp =
  payload :: 'tx
  timestamp :: int

record 'tx stream_state =
  transactions :: "'tx transaction_with_timestamp list"
  isStreaming :: bool
  error_s :: "string option"
  totalCount :: int
  unwatchRef :: bool

text \<open>The values of the \<open>useState\<close> and \<open>useRef\<close> initialisers.\<close>

definition streamInitial :: "'tx stream_state" where
  "streamInitial =
     \<lparr> transactions = [], isStreaming = False, error_s = None, totalCount = 0,
       unwatchRef = False \<rparr>"

record stream_error =
  message :: string

text \<open>
  \<open>startStreaming\<close>: the argument is \<open>Some\<close> what \<open>client.streamTimeboostedTxs\<close> threw, or
  \<open>None\<close> when it returned the handle.
\<close>

definition startStreaming :: "thrown option \<Rightarrow> 'tx stream_state \<Rightarrow> 'tx stream_state" where
  "startStreaming failure st =
     (let st1 = st\<lparr> isStreaming := True, error_s := None, transactions := [], totalCount := 0 \<rparr> in
      (case failure of
         None \<Rightarrow> st1\<lparr> unwatchRef := True \<rparr>
       | Some err \<Rightarrow>
           st1\<lparr> error_s := Some (case err of ErrorObject m \<Rightarrow> m
                                            | OtherValue \<Rightarrow> ''Failed to start streaming''),
                isStreaming := False \<rparr>))"

text \<open>\<open>onTransaction\<close>, run at clock reading \<open>now\<close>; \<open>prev.slice(0, 19)\<close> is \<open>take 19\<close>.\<close>

definition onTransaction :: "'tx \<Rightarrow> int \<Rightarrow> 'tx stream_state \<Rightarrow> 'tx stream_state" where
  "onTransaction tx now st =
     st\<lparr> transactions := \<lparr> payload = tx, timestamp = now \<rparr> # take 19 (transactions st),
         totalCount := totalCount st + 1 \<rparr>"

text \<open>\<open>onError\<close>; \<open>err.message || 'Streaming error occurred'\<close> replaces an empty message.\<close>

definition onError :: "stream_error \<Rightarrow> 'tx stream_state \<Rightarrow> 'tx stream_state" where
  "onError err st =
     st\<lparr> error_s := Some (if message err = [] then ''Streaming error occurred'' else message err),
         isStreaming := False \<rparr>"

definition stopStreaming :: "'tx stream_state \<Rightarrow> 'tx stream_state" where
  "stopStreaming st = st\<lparr> isStreaming := False, unwatchRef := False \<rparr>"

definition resetComponent :: "'tx stream_state \<Rightarrow> 'tx stream_state" where
  "resetComponent st =
     st\<lparr> unwatchRef := False, isStreaming := False, transactions := [], totalCount := 0,
         error_s := None \<rparr>"

text \<open>The subscription delivers events one at a time, each with the clock reading of its arrival.\<close>

fun deliverEvents :: "('tx \<times> int) list \<Rightarrow> 'tx stream_state \<Rightarrow> 'tx stream_state" where
  "deliverEvents [] st = st"
| "deliverEvents ((tx, now) # es) st = deliverEvents es (onTransaction tx now st)"

definition stamped :: "'tx \<times> int \<Rightarrow> 'tx transaction_with_timestamp" where
  "stamped e = \<lparr> payload = fst e, timestamp = snd e \<rparr>"

text \<open>\<open>const isNew = Date.now() - tx.timestamp < 3000\<close>, computed inside the render's \<open>map\<close>.\<close>

definition isNew :: "int \<Rightarrow> 'tx transaction_with_timestamp \<Rightarrow> bool" where
  "isNew now tx = (now - timestamp tx < 3000)"

definition renderIsNew :: "int \<Rightarrow> 'tx stream_state \<Rightarrow> bool list" where
  "renderIsNew now st = map (isNew now) (transactions st)"


section \<open>The interval effects\<close>

text \<open>
  Each countdown has an effect with the dependency \<open>[value !== null]\<close>. When it runs, it
  clears the interval held in its ref and installs a new one only if the value of that render
  is a number greater than 0. \<open>intervalEffect\<close> is the state of the ref after such a run:
  true when an interval is installed.
\<close>

definition intervalEffect :: "int option \<Rightarrow> bool" where
  "intervalEffect v = (case v of None \<Rightarrow> False | Some c \<Rightarrow> c > 0)"

text \<open>\<open>AuctionStatus\<close> with its two interval refs.\<close>

record auction_component =
  hooks :: auction_state
  countdownIntervalRef :: bool
  roundStartIntervalRef :: bool

text \<open>The first render: both effects run once on the initial values.\<close>

definition auctionMount :: auction_component where
  "auctionMount =
     \<lparr> hooks = auctionInitial,
       countdownIntervalRef = intervalEffect (localCountdown auctionInitial),
       roundStartIntervalRef = intervalEffect (localRoundStartCountdown auctionInitial) \<rparr>"

text \<open>
  A render after the hook state changed to \<open>new\<close>: an interval effect runs again only when
  its dependency differs from the one of the previous render; otherwise the ref keeps its
  interval.
\<close>

definition auctionCommit :: "auction_state \<Rightarrow> auction_component \<Rightarrow> auction_component" where
  "auctionCommit new cm =
     \<lparr> hooks = new,
       countdownIntervalRef =
         (if (localCountdown new \<noteq> None) = (localCountdown (hooks cm) \<noteq> None)
          then countdownIntervalRef cm
          else intervalEffect (localCountdown new)),
       roundStartIntervalRef =
         (if (localRoundStartCountdown new \<noteq> None) = (localRoundStartCountdown (hooks cm) \<noteq> None)
          then roundStartIntervalRef cm
          else intervalEffect (localRoundStartCountdown new)) \<rparr>"

text \<open>
  What can happen to the mounted component: a poll completes, or a second passes for one of
  the intervals, whose callback runs only if the interval is installed.
\<close>

fun auctionComponentStep :: "auction_call \<Rightarrow> auction_component \<Rightarrow> auction_component" where
  "auctionComponentStep (Poll result now) cm =
     auctionCommit (pollStatus result now (hooks cm)) cm"
| "auctionComponentStep TickCountdown cm =
     (if countdownIntervalRef cm then auctionCommit (tickCountdown (hooks cm)) cm else cm)"
| "auctionComponentStep TickRoundStart cm =
     (if roundStartIntervalRef cm then auctionCommit (tickRoundStart (hooks cm)) cm else cm)"

fun auctionComponentRun :: "auction_call list \<Rightarrow> auction_component \<Rightarrow> auction_component" where
  "auctionComponentRun [] cm = cm"
| "auctionComponentRun (c # cs) cm = auctionComponentRun cs (auctionComponentStep c cm)"

text \<open>The calls between two successful samples: failed polls and timer slots.\<close>

fun failedPollOrTick :: "auction_call \<Rightarrow> bool" where
  "failedPollOrTick (Poll (Inl err) now) = True"
| "failedPollOrTick (Poll (Inr s) now) = False"
| "failedPollOrTick TickCountdown = True"
| "failedPollOrTick TickRoundStart = True"

text \<open>\<open>ExpressLaneController\<close> with its interval ref.\<close>

record controller_component =
  hooks_c :: controller_state
  countdownIntervalRef_c :: bool

definition controllerMount :: controller_component where
  "controllerMount =
     \<lparr> hooks_c = controllerInitial,
       countdownIntervalRef_c = intervalEffect (localTimeRemaining controllerInitial) \<rparr>"

definition controllerCommit ::
  "controller_state \<Rightarrow> controller_component \<Rightarrow> controller_component" where
  "controllerCommit new cm =
     \<lparr> hooks_c = new,
       countdownIntervalRef_c =
         (if (localTimeRemaining new \<noteq> None) = (localTimeRemaining (hooks_c cm) \<noteq> None)
          then countdownIntervalRef_c cm
          else intervalEffect (localTimeRemaining new)) \<rparr>"

datatype controller_call =
    PollController "thrown + express_lane_controller" int
  | TickTimeRemaining

fun controllerComponentStep ::
  "controller_call \<Rightarrow> controller_component \<Rightarrow> controller_component" where
  "controllerComponentStep (PollController result now) cm =
     controllerCommit (pollController result now (hooks_c cm)) cm"
| "controllerComponentStep TickTimeRemaining cm =
     (if countdownIntervalRef_c cm then controllerCommit (tickTimeRemaining (hooks_c cm)) cm
      else cm)"

fun controllerComponentRun ::
  "controller_call list \<Rightarrow> controller_component \<Rightarrow> controller_component" where
  "controllerComponentRun [] cm = cm"
| "controllerComponentRun (c # cs) cm =
     controllerComponentRun cs (controllerComponentStep c cm)"

fun failedPollOrTick_c :: "controller_call \<Rightarrow> bool" where
  "failedPollOrTick_c (PollController (Inl err) now) = True"
| "failedPollOrTick_c (PollController (Inr c) now) = False"
| "failedPollOrTick_c TickTimeRemaining = True"


section \<open>The resync condition as the specification words it\<close>

text \<open>
  Written from the specification, for comparison with the effects above: resync when no
  displayed value exists, when more than 3000 ms have elapsed, or when the displayed value
  and the sample differ by more than 2.
\<close>

definition spec_resync_condition :: "int option \<Rightarrow> int \<Rightarrow> int \<Rightarrow> bool" where
  "spec_resync_condition displayed elapsed s =
     (case displayed of None \<Rightarrow> True | Some d \<Rightarrow> elapsed > 3000 \<or> \<bar>d - s\<bar> > 2)"


section \<open>The feed buffer\<close>

lemma take_append_take:
  "take n (xs @ take n ys) = take n (xs @ ys)"
  by (simp add: min_def)

lemma deliverEvents_transactions:
  "transactions (deliverEvents es st) =
     (if es = [] then transactions st else take 20 (rev (map stamped es) @ transactions st))"
proof (induction es arbitrary: st)
  case Nil
  show ?case by simp
next
  case (Cons e es)
  obtain tx now where e: "e = (tx, now)" by (cases e)
  have one: "transactions (onTransaction tx now st) = take 20 (stamped e # transactions st)"
    by (simp add: onTransaction_def stamped_def e)
  show ?case
  proof (cases "es = []")
    case True
    then show ?thesis using one by (simp add: e)
  next
    case False
    have "transactions (deliverEvents (e # es) st) =
            take 20 (rev (map stamped es) @ take 20 (stamped e # transactions st))"
      using Cons.IH [of "onTransaction tx now st"] False one by (simp add: e)
    also have "\<dots> = take 20 (rev (map stamped es) @ stamped e # transactions st)"
      by (rule take_append_take)
    finally show ?thesis by simp
  qed
qed

lemma deliverEvents_totalCount:
  "totalCount (deliverEvents es st) = totalCount st + int (length es)"
proof (induction es arbitrary: st)
  case Nil
  show ?case by simp
next
  case (Cons e es)
  obtain tx now where e: "e = (tx, now)" by (cases e)
  show ?case using Cons.IH [of "onTransaction tx now st"]
    by (simp add: e onTransaction_def)
qed

lemma deliverEvents_from_empty:
  "transactions st = [] \<Longrightarrow> transactions (deliverEvents es st) = take 20 (rev (map stamped es))"
  by (simp add: deliverEvents_transactions)

lemma take_rev_drop:
  "take n (rev xs) = rev (drop (length xs - n) xs)"
  by (simp add: take_rev)

text \<open>
  Claim C3. After a reset of the feed buffer (by \<open>startStreaming\<close> or by \<open>resetComponent\<close>),
  the delivery of N events leaves exactly min(20, N) events in the buffer, the most recently
  received first: the buffer is the reversed list of the stamped events without its oldest
  N - 20 members.
\<close>

theorem buffer_newest_first_capped:
  "transactions (deliverEvents es (startStreaming failure st)) =
     rev (drop (length es - 20) (map stamped es))
   \<and> length (transactions (deliverEvents es (startStreaming failure st))) = min 20 (length es)
   \<and> transactions (deliverEvents es (resetComponent st)) =
     rev (drop (length es - 20) (map stamped es))
   \<and> length (transactions (deliverEvents es (resetComponent st))) = min 20 (length es)"
proof -
  have a: "transactions (startStreaming failure st) = []"
    by (simp add: startStreaming_def Let_def split: option.split)
  have b: "transactions (resetComponent st) = []"
    by (simp add: resetComponent_def)
  have c: "take 20 (rev (map stamped es)) = rev (drop (length es - 20) (map stamped es))"
    using take_rev_drop [of 20 "map stamped es"] by simp
  show ?thesis
    using deliverEvents_from_empty [OF a, of es] deliverEvents_from_empty [OF b, of es] c
    by simp
qed

text \<open>
  Claim C6. After N events with no reset in between, the total-received counter is N, whatever
  the buffer dropped: the counter passes 20 while the buffer length stays at 20.
\<close>

theorem total_count_is_number_received:
  "totalCount (deliverEvents es (startStreaming failure st)) = int (length es)
   \<and> totalCount (deliverEvents es (resetComponent st)) = int (length es)
   \<and> length (transactions (deliverEvents es (startStreaming failure st))) \<le> 20"
proof -
  have a: "totalCount (startStreaming failure st) = 0"
    by (simp add: startStreaming_def Let_def split: option.split)
  have b: "totalCount (resetComponent st) = 0"
    by (simp add: resetComponent_def)
  have c: "transactions (startStreaming failure st) = []"
    by (simp add: startStreaming_def Let_def split: option.split)
  have d: "length (transactions (deliverEvents es (startStreaming failure st))) \<le> 20"
    using deliverEvents_from_empty [OF c, of es] by simp
  show ?thesis
    using deliverEvents_totalCount [of es "startStreaming failure st"]
      deliverEvents_totalCount [of es "resetComponent st"] a b d
    by simp
qed


section \<open>The countdown reconciler\<close>

lemma countdownUpdater_simps:
  "countdownUpdater None = None"
  "countdownUpdater (Some p) = (if p \<le> 0 then None else Some (p - 1))"
  by (simp_all add: countdownUpdater_def)

lemmas auction_defs =
  pollStatus_def fetchStatus_def statusEffect_def tickCountdown_def tickRoundStart_def
  countdownUpdater_simps auctionInitial_def errorMessage_def

lemmas controller_defs =
  pollController_def fetchController_def controllerEffect_def tickTimeRemaining_def
  countdownUpdater_simps controllerInitial_def errorMessage_def

lemma updater_funpow_within:
  "int n \<le> v \<Longrightarrow> (countdownUpdater ^^ n) (Some v) = Some (v - int n)"
proof (induction n)
  case 0
  show ?case by simp
next
  case (Suc n)
  then have "(countdownUpdater ^^ n) (Some v) = Some (v - int n)" by simp
  moreover have "0 < v - int n" using Suc.prems by simp
  ultimately show ?case by (simp add: countdownUpdater_simps)
qed

lemma updater_funpow_finished:
  "0 \<le> v \<Longrightarrow> (countdownUpdater ^^ (nat v + 1)) (Some v) = None"
  using updater_funpow_within [of "nat v" v] by (simp add: countdownUpdater_simps)

lemma tickCountdown_funpow:
  "localCountdown ((tickCountdown ^^ n) st) = (countdownUpdater ^^ n) (localCountdown st)"
  by (induction n) (simp_all add: tickCountdown_def)

lemma tickRoundStart_funpow:
  "localRoundStartCountdown ((tickRoundStart ^^ n) st) =
     (countdownUpdater ^^ n) (localRoundStartCountdown st)"
  by (induction n) (simp_all add: tickRoundStart_def)

lemma tickTimeRemaining_funpow:
  "localTimeRemaining ((tickTimeRemaining ^^ n) st) =
     (countdownUpdater ^^ n) (localTimeRemaining st)"
  by (induction n) (simp_all add: tickTimeRemaining_def)

text \<open>
  Claim C1, as the specification words it, fails when the displayed value is 0. A bidding
  sample of 1 second at clock 10000 and one tick leave the countdown at 0; a second bidding
  sample of 1 second arrives 1000 ms later, within the window and within the tolerance, and
  none of the three conditions of the specification holds, yet the countdown becomes 1.
\<close>
theorem resync_zero_counterexample:
  "localCountdown (auctionRun
       [Poll (Inr \<lparr> currentPhase = Bidding, timeUntilAuctionCloses = 1, timeUntilRoundStarts = 16 \<rparr>) 10000,
        TickCountdown] auctionInitial) = Some 0
   \<and> \<not> spec_resync_condition (Some 0)
        (11000 - lastSyncTimeRef (auctionRun
       [Poll (Inr \<lparr> currentPhase = Bidding, timeUntilAuctionCloses = 1, timeUntilRoundStarts = 16 \<rparr>) 10000,
        TickCountdown] auctionInitial)) 1
   \<and> localCountdown (auctionRun
       [Poll (Inr \<lparr> currentPhase = Bidding, timeUntilAuctionCloses = 1, timeUntilRoundStarts = 16 \<rparr>) 10000,
        TickCountdown,
        Poll (Inr \<lparr> currentPhase = Bidding, timeUntilAuctionCloses = 1, timeUntilRoundStarts = 16 \<rparr>) 11000]
       auctionInitial) = Some 1"
  by (simp add: auction_defs spec_resync_condition_def)

text \<open>
  Claim C1, amended. A sample for a countdown (a bidding status for the auction-closes
  countdown, a closing or resolving status for the round-starts countdown, a controller
  object with a current controller for the time remaining) replaces the displayed value if
  and only if the displayed value is absent or 0, or more than 3000 ms have passed since the
  stored sync time, or the displayed value and the sample differ by more than 2; otherwise
  the displayed value is unchanged.
\<close>
theorem resync_policy:
  "(currentPhase s = Bidding \<longrightarrow>
      localCountdown (pollStatus (Inr s) now st) =
        (if spec_resync_condition (localCountdown st) (now - lastSyncTimeRef st)
              (timeUntilAuctionCloses s) \<or> localCountdown st = Some 0
         then Some (timeUntilAuctionCloses s) else localCountdown st))
   \<and> (currentPhase s' = Closing \<or> currentPhase s' = Resolving \<longrightarrow>
      localRoundStartCountdown (pollStatus (Inr s') now st) =
        (if spec_resync_condition (localRoundStartCountdown st) (now - lastSyncTimeRef st)
              (timeUntilRoundStarts s') \<or> localRoundStartCountdown st = Some 0
         then Some (timeUntilRoundStarts s') else localRoundStartCountdown st))
   \<and> (currentController c \<noteq> None \<and> currentController c \<noteq> Some [] \<longrightarrow>
      localTimeRemaining (pollController (Inr c) now cst) =
        (if spec_resync_condition (localTimeRemaining cst) (now - lastSyncTimeRef_c cst)
              (timeRemainingInRound c) \<or> localTimeRemaining cst = Some 0
         then Some (timeRemainingInRound c) else localTimeRemaining cst))"
proof (intro conjI impI)
  assume "currentPhase s = Bidding"
  then show "localCountdown (pollStatus (Inr s) now st) =
        (if spec_resync_condition (localCountdown st) (now - lastSyncTimeRef st)
              (timeUntilAuctionCloses s) \<or> localCountdown st = Some 0
         then Some (timeUntilAuctionCloses s) else localCountdown st)"
    by (cases "localCountdown st")
       (auto simp add: pollStatus_def fetchStatus_def statusEffect_def Let_def
          spec_resync_condition_def)
next
  assume "currentPhase s' = Closing \<or> currentPhase s' = Resolving"
  then show "localRoundStartCountdown (pollStatus (Inr s') now st) =
        (if spec_resync_condition (localRoundStartCountdown st) (now - lastSyncTimeRef st)
              (timeUntilRoundStarts s') \<or> localRoundStartCountdown st = Some 0
         then Some (timeUntilRoundStarts s') else localRoundStartCountdown st)"
    by (cases "localRoundStartCountdown st")
       (auto simp add: pollStatus_def fetchStatus_def statusEffect_def Let_def
          spec_resync_condition_def)
next
  assume "currentController c \<noteq> None \<and> currentController c \<noteq> Some []"
  then show "localTimeRemaining (pollController (Inr c) now cst) =
        (if spec_resync_condition (localTimeRemaining cst) (now - lastSyncTimeRef_c cst)
              (timeRemainingInRound c) \<or> localTimeRemaining cst = Some 0
         then Some (timeRemainingInRound c) else localTimeRemaining cst)"
    by (cases "localTimeRemaining cst")
       (auto simp add: pollController_def fetchController_def controllerEffect_def Let_def
          spec_resync_condition_def)
qed

text \<open>
  Within 1000 ms of the last sync, a sample one second away from the display is ignored, and
  a sample five seconds away, or one for a countdown that is absent, is applied.
\<close>
theorem resync_policy_witness:
  "currentPhase \<lparr> currentPhase = Bidding, timeUntilAuctionCloses = 41, timeUntilRoundStarts = 56 \<rparr> = Bidding
   \<and> (currentPhase \<lparr> currentPhase = Closing, timeUntilAuctionCloses = 0, timeUntilRoundStarts = 9 \<rparr> = Closing
        \<or> currentPhase \<lparr> currentPhase = Closing, timeUntilAuctionCloses = 0, timeUntilRoundStarts = 9 \<rparr> = Resolving)
   \<and> currentController \<lparr> currentController = Some ''0xab'', timeRemainingInRound = 30 \<rparr> \<noteq> None
   \<and> currentController \<lparr> currentController = Some ''0xab'', timeRemainingInRound = 30 \<rparr> \<noteq> Some []
   \<and> localCountdown
        (pollStatus (Inr \<lparr> currentPhase = Bidding, timeUntilAuctionCloses = 41, timeUntilRoundStarts = 56 \<rparr>)
           2000 (auctionInitial\<lparr> localCountdown := Some 40, lastSyncTimeRef := 1000 \<rparr>)) = Some 40
   \<and> localRoundStartCountdown
        (pollStatus (Inr \<lparr> currentPhase = Closing, timeUntilAuctionCloses = 0, timeUntilRoundStarts = 9 \<rparr>)
           2000 (auctionInitial\<lparr> localCountdown := Some 40, lastSyncTimeRef := 1000 \<rparr>)) = Some 9
   \<and> localTimeRemaining
        (pollController (Inr \<lparr> currentController = Some ''0xab'', timeRemainingInRound = 30 \<rparr>)
           2000 (controllerInitial\<lparr> localTimeRemaining := Some 35, lastSyncTimeRef_c := 1000 \<rparr>)) = Some 30"
  using resync_policy
    [where s = "\<lparr> currentPhase = Bidding, timeUntilAuctionCloses = 41, timeUntilRoundStarts = 56 \<rparr>"
       and s' = "\<lparr> currentPhase = Closing, timeUntilAuctionCloses = 0, timeUntilRoundStarts = 9 \<rparr>"
       and c = "\<lparr> currentController = Some ''0xab'', timeRemainingInRound = 30 \<rparr>"
       and now = 2000
       and st = "auctionInitial\<lparr> localCountdown := Some 40, lastSyncTimeRef := 1000 \<rparr>"
       and cst = "controllerInitial\<lparr> localTimeRemaining := Some 35, lastSyncTimeRef_c := 1000 \<rparr>"]
  by (simp add: spec_resync_condition_def auctionInitial_def controllerInitial_def)

text \<open>
  Claim C2, as worded, fails at a displayed value of 1: the tick produces 0, which is not
  positive, and the value stays present; one tick does not end a countdown of 1.
\<close>
theorem tick_at_one_counterexample:
  "localCountdown (auctionRun
       [Poll (Inr \<lparr> currentPhase = Bidding, timeUntilAuctionCloses = 1, timeUntilRoundStarts = 16 \<rparr>) 10000,
        TickCountdown] auctionInitial) = Some 0"
  by (simp add: auction_defs)

text \<open>
  Claim C2, amended. A tick on a present value greater than 0 decrements it by 1 and keeps
  the result, also when the result is 0; a tick on a present value that is 0 or less clears
  it. So N ticks with N \<le> V leave V - N (the value 0 when N = V), and V + 1 ticks make the
  value absent. The same holds for each of the three countdowns.
\<close>
theorem ticks_count_down:
  "int n \<le> v \<Longrightarrow>
     localCountdown (tickCountdown (st\<lparr> localCountdown := Some p \<rparr>)) =
       (if p \<le> 0 then None else Some (p - 1))
   \<and> localCountdown ((tickCountdown ^^ n) (st\<lparr> localCountdown := Some v \<rparr>)) = Some (v - int n)
   \<and> localCountdown ((tickCountdown ^^ (nat v + 1)) (st\<lparr> localCountdown := Some v \<rparr>)) = None
   \<and> localRoundStartCountdown ((tickRoundStart ^^ n) (st\<lparr> localRoundStartCountdown := Some v \<rparr>)) =
       Some (v - int n)
   \<and> localRoundStartCountdown
       ((tickRoundStart ^^ (nat v + 1)) (st\<lparr> localRoundStartCountdown := Some v \<rparr>)) = None
   \<and> localTimeRemaining ((tickTimeRemaining ^^ n) (cst\<lparr> localTimeRemaining := Some v \<rparr>)) =
       Some (v - int n)
   \<and> localTimeRemaining ((tickTimeRemaining ^^ (nat v + 1)) (cst\<lparr> localTimeRemaining := Some v \<rparr>)) =
       None"
proof -
  assume a: "int n \<le> v"
  then have v: "0 \<le> v" by simp
  have one: "localCountdown (tickCountdown (st\<lparr> localCountdown := Some p \<rparr>)) =
       (if p \<le> 0 then None else Some (p - 1))"
    by (simp add: tickCountdown_def countdownUpdater_simps)
  show ?thesis
    using one updater_funpow_within [OF a] updater_funpow_finished [OF v]
    by (simp only: tickCountdown_funpow tickRoundStart_funpow tickTimeRemaining_funpow) simp
qed

text \<open>Three ticks take 3 to 0; the fourth clears it.\<close>
theorem ticks_count_down_witness:
  "int 3 \<le> 3
   \<and> localCountdown ((tickCountdown ^^ 3) (auctionInitial\<lparr> localCountdown := Some 3 \<rparr>)) = Some 0
   \<and> localCountdown ((tickCountdown ^^ 4) (auctionInitial\<lparr> localCountdown := Some 3 \<rparr>)) = None
   \<and> localTimeRemaining ((tickTimeRemaining ^^ 3) (controllerInitial\<lparr> localTimeRemaining := Some 3 \<rparr>)) =
       Some 0"
  using ticks_count_down
    [where n = 3 and v = 3 and p = 1 and st = auctionInitial and cst = controllerInitial]
  by simp

text \<open>
  Claim C4, as worded, fails in \<open>ExpressLaneController\<close>: after a sample with a controller
  at clock 5000, a sample without a current controller at clock 10000 leaves the stored sync
  time at 5000.
\<close>
theorem no_controller_sync_counterexample:
  "lastSyncTimeRef_c
     (pollController (Inr \<lparr> currentController = None, timeRemainingInRound = 30 \<rparr>) 10000
        (pollController (Inr \<lparr> currentController = Some ''0xab'', timeRemainingInRound = 35 \<rparr>) 5000
           controllerInitial)) = 5000"
  by (simp add: controller_defs)

text \<open>
  Claim C4, amended. Every status sample, in any phase, sets the sync time of
  \<open>AuctionStatus\<close> to the current time, and every controller sample with a current
  controller sets the sync time of \<open>ExpressLaneController\<close> to the current time, whether
  or not the displayed value was replaced. A controller sample without a current controller
  clears the displayed value and leaves the sync time as it was.
\<close>
theorem last_sync_updated:
  "lastSyncTimeRef (pollStatus (Inr s) now st) = now
   \<and> (currentController c \<noteq> None \<and> currentController c \<noteq> Some [] \<longrightarrow>
        lastSyncTimeRef_c (pollController (Inr c) now cst) = now)
   \<and> (currentController c' = None \<or> currentController c' = Some [] \<longrightarrow>
        lastSyncTimeRef_c (pollController (Inr c') now cst) = lastSyncTimeRef_c cst
        \<and> localTimeRemaining (pollController (Inr c') now cst) = None)"
  by (auto simp add: pollStatus_def fetchStatus_def statusEffect_def Let_def
        pollController_def fetchController_def controllerEffect_def)

text \<open>
  A controller sample within the tolerance leaves the display at 35 and still moves the sync
  time to 2000; without a current controller the sync time stays 1000.
\<close>
theorem last_sync_updated_witness:
  "currentController \<lparr> currentController = Some ''0xab'', timeRemainingInRound = 36 \<rparr> \<noteq> None
   \<and> currentController \<lparr> currentController = Some ''0xab'', timeRemainingInRound = 36 \<rparr> \<noteq> Some []
   \<and> (currentController \<lparr> currentController = None, timeRemainingInRound = 36 \<rparr> = None
        \<or> currentController \<lparr> currentController = None, timeRemainingInRound = 36 \<rparr> = Some [])
   \<and> localTimeRemaining
        (pollController (Inr \<lparr> currentController = Some ''0xab'', timeRemainingInRound = 36 \<rparr>) 2000
           (controllerInitial\<lparr> localTimeRemaining := Some 35, lastSyncTimeRef_c := 1000 \<rparr>)) = Some 35
   \<and> lastSyncTimeRef_c
        (pollController (Inr \<lparr> currentController = Some ''0xab'', timeRemainingInRound = 36 \<rparr>) 2000
           (controllerInitial\<lparr> localTimeRemaining := Some 35, lastSyncTimeRef_c := 1000 \<rparr>)) = 2000
   \<and> lastSyncTimeRef_c
        (pollController (Inr \<lparr> currentController = None, timeRemainingInRound = 36 \<rparr>) 2000
           (controllerInitial\<lparr> localTimeRemaining := Some 35, lastSyncTimeRef_c := 1000 \<rparr>)) = 1000"
  using last_sync_updated
    [where c = "\<lparr> currentController = Some ''0xab'', timeRemainingInRound = 36 \<rparr>"
       and c' = "\<lparr> currentController = None, timeRemainingInRound = 36 \<rparr>"
       and now = 2000
       and cst = "controllerInitial\<lparr> localTimeRemaining := Some 35, lastSyncTimeRef_c := 1000 \<rparr>"]
  by (simp add: controller_defs)

section \<open>The two countdowns of \<open>AuctionStatus\<close>\<close>

lemma statusEffect_exclusive:
  "status st \<noteq> None \<Longrightarrow>
     localCountdown (statusEffect now st) = None
     \<or> localRoundStartCountdown (statusEffect now st) = None"
  by (auto simp add: statusEffect_def Let_def)

lemma auctionStep_exclusive:
  assumes "localCountdown st = None \<or> localRoundStartCountdown st = None"
  shows "localCountdown (auctionStep c st) = None
         \<or> localRoundStartCountdown (auctionStep c st) = None"
proof (cases c)
  case (Poll result now)
  show ?thesis
  proof (cases result)
    case (Inl err)
    then show ?thesis using assms Poll by (simp add: pollStatus_def fetchStatus_def)
  next
    case (Inr s)
    have "status (fetchStatus (Inr s) st) \<noteq> None" by (simp add: fetchStatus_def)
    from statusEffect_exclusive [OF this, of now] show ?thesis
      using Poll Inr by (simp add: pollStatus_def)
  qed
next
  case TickCountdown
  then show ?thesis using assms
    by (auto simp add: tickCountdown_def countdownUpdater_simps)
next
  case TickRoundStart
  then show ?thesis using assms
    by (auto simp add: tickRoundStart_def countdownUpdater_simps)
qed

lemma auctionRun_exclusive:
  "localCountdown st = None \<or> localRoundStartCountdown st = None \<Longrightarrow>
     localCountdown (auctionRun cs st) = None \<or> localRoundStartCountdown (auctionRun cs st) = None"
proof (induction cs arbitrary: st)
  case Nil
  then show ?case by simp
next
  case (Cons c cs)
  from Cons.IH [OF auctionStep_exclusive [OF Cons.prems]] show ?case by simp
qed

text \<open>
  Claim C5. In every state reached from the initial state by polls (successful or failed) and
  ticks of either interval, in any order, at most one of the two countdowns is present; a
  status whose phase is not bidding clears the auction-closes countdown, and a status whose
  phase is neither closing nor resolving clears the round-starts countdown.
\<close>
theorem countdowns_exclusive:
  "(localCountdown (auctionRun cs auctionInitial) = None
      \<or> localRoundStartCountdown (auctionRun cs auctionInitial) = None)
   \<and> (currentPhase s \<noteq> Bidding \<longrightarrow> localCountdown (pollStatus (Inr s) now st) = None)
   \<and> (currentPhase s' \<noteq> Closing \<and> currentPhase s' \<noteq> Resolving \<longrightarrow>
        localRoundStartCountdown (pollStatus (Inr s') now st) = None)"
proof -
  have init: "localCountdown auctionInitial = None \<or> localRoundStartCountdown auctionInitial = None"
    by (simp add: auctionInitial_def)
  have clear1: "currentPhase s \<noteq> Bidding \<longrightarrow> localCountdown (pollStatus (Inr s) now st) = None"
    by (simp add: pollStatus_def fetchStatus_def statusEffect_def Let_def)
  have clear2: "currentPhase s' \<noteq> Closing \<and> currentPhase s' \<noteq> Resolving \<longrightarrow>
        localRoundStartCountdown (pollStatus (Inr s') now st) = None"
    by (simp add: pollStatus_def fetchStatus_def statusEffect_def Let_def)
  show ?thesis using auctionRun_exclusive [OF init, of cs] clear1 clear2 by blast
qed

text \<open>
  A closing status clears a bidding countdown of 1 and starts the round countdown; an active
  status leaves both absent.
\<close>
theorem countdowns_exclusive_witness:
  "currentPhase \<lparr> currentPhase = Closing, timeUntilAuctionCloses = 0, timeUntilRoundStarts = 14 \<rparr> \<noteq> Bidding
   \<and> currentPhase \<lparr> currentPhase = Active, timeUntilAuctionCloses = 0, timeUntilRoundStarts = 0 \<rparr> \<noteq> Closing
   \<and> currentPhase \<lparr> currentPhase = Active, timeUntilAuctionCloses = 0, timeUntilRoundStarts = 0 \<rparr> \<noteq> Resolving
   \<and> localCountdown
        (pollStatus (Inr \<lparr> currentPhase = Closing, timeUntilAuctionCloses = 0, timeUntilRoundStarts = 14 \<rparr>)
           16000 (auctionInitial\<lparr> localCountdown := Some 1, lastSyncTimeRef := 11000 \<rparr>)) = None
   \<and> localRoundStartCountdown
        (pollStatus (Inr \<lparr> currentPhase = Closing, timeUntilAuctionCloses = 0, timeUntilRoundStarts = 14 \<rparr>)
           16000 (auctionInitial\<lparr> localCountdown := Some 1, lastSyncTimeRef := 11000 \<rparr>)) = Some 14
   \<and> localRoundStartCountdown
        (pollStatus (Inr \<lparr> currentPhase = Active, timeUntilAuctionCloses = 0, timeUntilRoundStarts = 0 \<rparr>)
           16000 (auctionInitial\<lparr> localCountdown := Some 1, lastSyncTimeRef := 11000 \<rparr>)) = None"
  using countdowns_exclusive
    [where s = "\<lparr> currentPhase = Closing, timeUntilAuctionCloses = 0, timeUntilRoundStarts = 14 \<rparr>"
       and s' = "\<lparr> currentPhase = Active, timeUntilAuctionCloses = 0, timeUntilRoundStarts = 0 \<rparr>"
       and now = 16000
       and st = "auctionInitial\<lparr> localCountdown := Some 1, lastSyncTimeRef := 11000 \<rparr>"
       and cs = "[]"]
  by (simp add: auction_defs)

section \<open>Freshness and errors of the feed\<close>

lemma deliverEvents_members:
  "transactions st = [] \<Longrightarrow> set (transactions (deliverEvents es st)) \<subseteq> stamped ` set es"
  using set_take_subset [of 20 "rev (map stamped es)"]
  by (simp add: deliverEvents_from_empty)

text \<open>
  Claim C7. The render computes the flag of every buffered event from the clock reading of
  that render: the flag is true exactly when the reading minus the event's timestamp is
  strictly less than 3000. Every buffered event carries the clock reading of its own arrival,
  so the flag holds exactly while less than 3000 ms have passed since the arrival. The flag
  is no field of the buffered record.
\<close>
theorem fresh_iff_under_3000:
  "renderIsNew t st = map (\<lambda>tx. t - timestamp tx < 3000) (transactions st)
   \<and> (\<forall>tx \<in> set (transactions (deliverEvents es (startStreaming failure st))).
        \<exists>e \<in> set es. tx = stamped e \<and> (isNew t tx \<longleftrightarrow> t - snd e < 3000))"
proof -
  have a: "transactions (startStreaming failure st) = []"
    by (simp add: startStreaming_def Let_def split: option.split)
  have "renderIsNew t st = map (\<lambda>tx. t - timestamp tx < 3000) (transactions st)"
    by (simp add: renderIsNew_def isNew_def)
  moreover have "\<forall>tx \<in> set (transactions (deliverEvents es (startStreaming failure st))).
        \<exists>e \<in> set es. tx = stamped e \<and> (isNew t tx \<longleftrightarrow> t - snd e < 3000)"
  proof
    fix tx
    assume "tx \<in> set (transactions (deliverEvents es (startStreaming failure st)))"
    then have "tx \<in> stamped ` set es" using deliverEvents_members [OF a, of es] by blast
    then obtain e where "e \<in> set es" and "tx = stamped e" by blast
    then show "\<exists>e \<in> set es. tx = stamped e \<and> (isNew t tx \<longleftrightarrow> t - snd e < 3000)"
      by (auto simp add: isNew_def stamped_def)
  qed
  ultimately show ?thesis by simp
qed

text \<open>An event received at 10000 is new at 12999 and no longer at 13000.\<close>
theorem fresh_iff_under_3000_witness:
  "\<lparr> payload = ''0xaa'', timestamp = 10000 \<rparr>
     \<in> set (transactions (deliverEvents [(''0xaa'', 10000)] (startStreaming None streamInitial)))
   \<and> isNew 12999 \<lparr> payload = ''0xaa'', timestamp = 10000 \<rparr>
   \<and> \<not> isNew 13000 \<lparr> payload = ''0xaa'', timestamp = 10000 \<rparr>
   \<and> renderIsNew 12999 (deliverEvents [(''0xaa'', 10000)] (startStreaming None streamInitial)) = [True]
   \<and> renderIsNew 13000 (deliverEvents [(''0xaa'', 10000)] (startStreaming None streamInitial)) = [False]"
  using fresh_iff_under_3000
    [where t = 12999 and es = "[(''0xaa'', 10000)]" and failure = None
       and st = "streamInitial :: string stream_state"]
  by (simp add: isNew_def renderIsNew_def onTransaction_def startStreaming_def streamInitial_def
        stamped_def)

text \<open>
  Claim C8. \<open>onError\<close> records the error message (a fixed text when the message is empty),
  sets the streaming flag to false, and leaves the buffer and the total-received counter as
  they were.
\<close>
theorem stream_error_keeps_buffer:
  "error_s (onError err st) =
     Some (if message err = [] then ''Streaming error occurred'' else message err)
   \<and> error_s (onError err st) \<noteq> None
   \<and> \<not> isStreaming (onError err st)
   \<and> transactions (onError err st) = transactions st
   \<and> totalCount (onError err st) = totalCount st"
  by (simp add: onError_def)

section \<open>Failed polls\<close>

lemma failed_step_frame:
  "hooks (auctionComponentStep (Poll (Inl err) now) cm) =
     (hooks cm)\<lparr> loading := False, error := Some (errorMessage err) \<rparr>
   \<and> countdownIntervalRef (auctionComponentStep (Poll (Inl err) now) cm) = countdownIntervalRef cm
   \<and> roundStartIntervalRef (auctionComponentStep (Poll (Inl err) now) cm) =
       roundStartIntervalRef cm"
  by (simp add: auctionCommit_def pollStatus_def fetchStatus_def)

lemma failed_step_frame_c:
  "hooks_c (controllerComponentStep (PollController (Inl err) now) cm) =
     (hooks_c cm)\<lparr> loading_c := False, error_c := Some (errorMessage err) \<rparr>
   \<and> countdownIntervalRef_c (controllerComponentStep (PollController (Inl err) now) cm) =
       countdownIntervalRef_c cm"
  by (simp add: controllerCommit_def pollController_def fetchController_def)

lemma countdown_run:
  "\<lbrakk> \<forall>c \<in> set cs. failedPollOrTick c; countdownIntervalRef cm;
     localCountdown (hooks cm) = Some v; int (count_list cs TickCountdown) \<le> v \<rbrakk>
   \<Longrightarrow> localCountdown (hooks (auctionComponentRun cs cm)) =
         Some (v - int (count_list cs TickCountdown))
       \<and> countdownIntervalRef (auctionComponentRun cs cm)"
proof (induction cs arbitrary: cm v)
  case Nil
  then show ?case by simp
next
  case (Cons c cs)
  show ?case
  proof (cases c)
    case (Poll result now)
    with Cons.prems(1) obtain err where r: "result = Inl err" by (cases result) auto
    let ?cm = "auctionComponentStep c cm"
    have "countdownIntervalRef ?cm" "localCountdown (hooks ?cm) = Some v"
      using Cons.prems(2,3) failed_step_frame [of err now cm] by (simp_all add: Poll r)
    moreover have "int (count_list cs TickCountdown) \<le> v" using Cons.prems(4) Poll by simp
    moreover have "\<forall>c \<in> set cs. failedPollOrTick c" using Cons.prems(1) by simp
    ultimately have "localCountdown (hooks (auctionComponentRun cs ?cm)) =
         Some (v - int (count_list cs TickCountdown))
       \<and> countdownIntervalRef (auctionComponentRun cs ?cm)"
      using Cons.IH [of ?cm v] by blast
    then show ?thesis using Poll by simp
  next
    case TickCountdown
    let ?cm = "auctionComponentStep c cm"
    have n: "int (count_list cs TickCountdown) \<le> v - 1" using Cons.prems(4) TickCountdown by simp
    then have pos: "0 < v" by linarith
    have "countdownIntervalRef ?cm" "localCountdown (hooks ?cm) = Some (v - 1)"
      using Cons.prems(2,3) pos
      by (simp_all add: TickCountdown auctionCommit_def tickCountdown_def countdownUpdater_simps)
    moreover have "\<forall>c \<in> set cs. failedPollOrTick c" using Cons.prems(1) by simp
    ultimately have "localCountdown (hooks (auctionComponentRun cs ?cm)) =
         Some (v - 1 - int (count_list cs TickCountdown))
       \<and> countdownIntervalRef (auctionComponentRun cs ?cm)"
      using Cons.IH [of ?cm "v - 1"] n by blast
    then show ?thesis using TickCountdown by (simp add: algebra_simps)
  next
    case TickRoundStart
    let ?cm = "auctionComponentStep c cm"
    have "countdownIntervalRef ?cm" "localCountdown (hooks ?cm) = Some v"
      using Cons.prems(2,3)
      by (simp_all add: TickRoundStart auctionCommit_def tickRoundStart_def)
    moreover have "int (count_list cs TickCountdown) \<le> v" using Cons.prems(4) TickRoundStart by simp
    moreover have "\<forall>c \<in> set cs. failedPollOrTick c" using Cons.prems(1) by simp
    ultimately have "localCountdown (hooks (auctionComponentRun cs ?cm)) =
         Some (v - int (count_list cs TickCountdown))
       \<and> countdownIntervalRef (auctionComponentRun cs ?cm)"
      using Cons.IH [of ?cm v] by blast
    then show ?thesis using TickRoundStart by simp
  qed
qed

lemma roundStart_run:
  "\<lbrakk> \<forall>c \<in> set cs. failedPollOrTick c; roundStartIntervalRef cm;
     localRoundStartCountdown (hooks cm) = Some v; int (count_list cs TickRoundStart) \<le> v \<rbrakk>
   \<Longrightarrow> localRoundStartCountdown (hooks (auctionComponentRun cs cm)) =
         Some (v - int (count_list cs TickRoundStart))
       \<and> roundStartIntervalRef (auctionComponentRun cs cm)"
proof (induction cs arbitrary: cm v)
  case Nil
  then show ?case by simp
next
  case (Cons c cs)
  have rest: "\<forall>c \<in> set cs. failedPollOrTick c" using Cons.prems(1) by simp
  let ?cm = "auctionComponentStep c cm"
  show ?case
  proof (cases c)
    case (Poll result now)
    with Cons.prems(1) obtain err where r: "result = Inl err" by (cases result) auto
    have "roundStartIntervalRef ?cm" "localRoundStartCountdown (hooks ?cm) = Some v"
      using Cons.prems(2,3) failed_step_frame [of err now cm] by (simp_all add: Poll r)
    moreover have "int (count_list cs TickRoundStart) \<le> v" using Cons.prems(4) Poll by simp
    ultimately have "localRoundStartCountdown (hooks (auctionComponentRun cs ?cm)) =
         Some (v - int (count_list cs TickRoundStart))
       \<and> roundStartIntervalRef (auctionComponentRun cs ?cm)"
      using Cons.IH [of ?cm v] rest by blast
    then show ?thesis using Poll by simp
  next
    case TickCountdown
    have "roundStartIntervalRef ?cm" "localRoundStartCountdown (hooks ?cm) = Some v"
      using Cons.prems(2,3)
      by (simp_all add: TickCountdown auctionCommit_def tickCountdown_def)
    moreover have "int (count_list cs TickRoundStart) \<le> v"
      using Cons.prems(4) TickCountdown by simp
    ultimately have "localRoundStartCountdown (hooks (auctionComponentRun cs ?cm)) =
         Some (v - int (count_list cs TickRoundStart))
       \<and> roundStartIntervalRef (auctionComponentRun cs ?cm)"
      using Cons.IH [of ?cm v] rest by blast
    then show ?thesis using TickCountdown by simp
  next
    case TickRoundStart
    have n: "int (count_list cs TickRoundStart) \<le> v - 1"
      using Cons.prems(4) TickRoundStart by simp
    then have pos: "0 < v" by linarith
    have "roundStartIntervalRef ?cm" "localRoundStartCountdown (hooks ?cm) = Some (v - 1)"
      using Cons.prems(2,3) pos
      by (simp_all add: TickRoundStart auctionCommit_def tickRoundStart_def
            countdownUpdater_simps)
    then have "localRoundStartCountdown (hooks (auctionComponentRun cs ?cm)) =
         Some (v - 1 - int (count_list cs TickRoundStart))
       \<and> roundStartIntervalRef (auctionComponentRun cs ?cm)"
      using Cons.IH [of ?cm "v - 1"] n rest by blast
    then show ?thesis using TickRoundStart by (simp add: algebra_simps)
  qed
qed

lemma timeRemaining_run:
  "\<lbrakk> \<forall>c \<in> set cs. failedPollOrTick_c c; countdownIntervalRef_c cm;
     localTimeRemaining (hooks_c cm) = Some v; int (count_list cs TickTimeRemaining) \<le> v \<rbrakk>
   \<Longrightarrow> localTimeRemaining (hooks_c (controllerComponentRun cs cm)) =
         Some (v - int (count_list cs TickTimeRemaining))
       \<and> countdownIntervalRef_c (controllerComponentRun cs cm)"
proof (induction cs arbitrary: cm v)
  case Nil
  then show ?case by simp
next
  case (Cons c cs)
  have rest: "\<forall>c \<in> set cs. failedPollOrTick_c c" using Cons.prems(1) by simp
  let ?cm = "controllerComponentStep c cm"
  show ?case
  proof (cases c)
    case (PollController result now)
    with Cons.prems(1) obtain err where r: "result = Inl err" by (cases result) auto
    have "countdownIntervalRef_c ?cm" "localTimeRemaining (hooks_c ?cm) = Some v"
      using Cons.prems(2,3) failed_step_frame_c [of err now cm]
      by (simp_all add: PollController r)
    moreover have "int (count_list cs TickTimeRemaining) \<le> v"
      using Cons.prems(4) PollController by simp
    ultimately have "localTimeRemaining (hooks_c (controllerComponentRun cs ?cm)) =
         Some (v - int (count_list cs TickTimeRemaining))
       \<and> countdownIntervalRef_c (controllerComponentRun cs ?cm)"
      using Cons.IH [of ?cm v] rest by blast
    then show ?thesis using PollController by simp
  next
    case TickTimeRemaining
    have n: "int (count_list cs TickTimeRemaining) \<le> v - 1"
      using Cons.prems(4) TickTimeRemaining by simp
    then have pos: "0 < v" by linarith
    have "countdownIntervalRef_c ?cm" "localTimeRemaining (hooks_c ?cm) = Some (v - 1)"
      using Cons.prems(2,3) pos
      by (simp_all add: TickTimeRemaining controllerCommit_def tickTimeRemaining_def
            countdownUpdater_simps)
    then have "localTimeRemaining (hooks_c (controllerComponentRun cs ?cm)) =
         Some (v - 1 - int (count_list cs TickTimeRemaining))
       \<and> countdownIntervalRef_c (controllerComponentRun cs ?cm)"
      using Cons.IH [of ?cm "v - 1"] n rest by blast
    then show ?thesis using TickTimeRemaining by (simp add: algebra_simps)
  qed
qed

text \<open>
  Claim C9. A failed poll leaves the last status (or controller object), the displayed
  countdowns, the sync time and the interval refs as they were, in both components. So a
  countdown whose interval is installed keeps counting: through any sequence of failed polls
  and timer slots, as long as no successful sample arrives, a displayed value v becomes
  v - n after n slots of its interval (n \<le> v), and its interval stays installed.
\<close>
theorem failed_poll_keeps_ticking:
  "status (hooks (auctionComponentStep (Poll (Inl err) now) cm)) = status (hooks cm)
   \<and> localCountdown (hooks (auctionComponentStep (Poll (Inl err) now) cm)) =
       localCountdown (hooks cm)
   \<and> localRoundStartCountdown (hooks (auctionComponentStep (Poll (Inl err) now) cm)) =
       localRoundStartCountdown (hooks cm)
   \<and> lastSyncTimeRef (hooks (auctionComponentStep (Poll (Inl err) now) cm)) =
       lastSyncTimeRef (hooks cm)
   \<and> countdownIntervalRef (auctionComponentStep (Poll (Inl err) now) cm) =
       countdownIntervalRef cm
   \<and> roundStartIntervalRef (auctionComponentStep (Poll (Inl err) now) cm) =
       roundStartIntervalRef cm
   \<and> controller (hooks_c (controllerComponentStep (PollController (Inl err) now) ccm)) =
       controller (hooks_c ccm)
   \<and> localTimeRemaining (hooks_c (controllerComponentStep (PollController (Inl err) now) ccm)) =
       localTimeRemaining (hooks_c ccm)
   \<and> lastSyncTimeRef_c (hooks_c (controllerComponentStep (PollController (Inl err) now) ccm)) =
       lastSyncTimeRef_c (hooks_c ccm)
   \<and> countdownIntervalRef_c (controllerComponentStep (PollController (Inl err) now) ccm) =
       countdownIntervalRef_c ccm
   \<and> ((\<forall>c \<in> set cs. failedPollOrTick c) \<and> countdownIntervalRef cm
        \<and> localCountdown (hooks cm) = Some v \<and> int (count_list cs TickCountdown) \<le> v \<longrightarrow>
        localCountdown (hooks (auctionComponentRun cs cm)) =
          Some (v - int (count_list cs TickCountdown))
        \<and> countdownIntervalRef (auctionComponentRun cs cm))
   \<and> ((\<forall>c \<in> set cs'. failedPollOrTick c) \<and> roundStartIntervalRef cm'
        \<and> localRoundStartCountdown (hooks cm') = Some v'
        \<and> int (count_list cs' TickRoundStart) \<le> v' \<longrightarrow>
        localRoundStartCountdown (hooks (auctionComponentRun cs' cm')) =
          Some (v' - int (count_list cs' TickRoundStart))
        \<and> roundStartIntervalRef (auctionComponentRun cs' cm'))
   \<and> ((\<forall>c \<in> set ccs. failedPollOrTick_c c) \<and> countdownIntervalRef_c ccm
        \<and> localTimeRemaining (hooks_c ccm) = Some w
        \<and> int (count_list ccs TickTimeRemaining) \<le> w \<longrightarrow>
        localTimeRemaining (hooks_c (controllerComponentRun ccs ccm)) =
          Some (w - int (count_list ccs TickTimeRemaining))
        \<and> countdownIntervalRef_c (controllerComponentRun ccs ccm))"
proof -
  have a: "hooks (auctionComponentStep (Poll (Inl err) now) cm) =
             (hooks cm)\<lparr> loading := False, error := Some (errorMessage err) \<rparr>"
    using failed_step_frame [of err now cm] by simp
  have b: "hooks_c (controllerComponentStep (PollController (Inl err) now) ccm) =
             (hooks_c ccm)\<lparr> loading_c := False, error_c := Some (errorMessage err) \<rparr>"
    using failed_step_frame_c [of err now ccm] by simp
  have frame: "status (hooks (auctionComponentStep (Poll (Inl err) now) cm)) = status (hooks cm)
   \<and> localCountdown (hooks (auctionComponentStep (Poll (Inl err) now) cm)) =
       localCountdown (hooks cm)
   \<and> localRoundStartCountdown (hooks (auctionComponentStep (Poll (Inl err) now) cm)) =
       localRoundStartCountdown (hooks cm)
   \<and> lastSyncTimeRef (hooks (auctionComponentStep (Poll (Inl err) now) cm)) =
       lastSyncTimeRef (hooks cm)
   \<and> controller (hooks_c (controllerComponentStep (PollController (Inl err) now) ccm)) =
       controller (hooks_c ccm)
   \<and> localTimeRemaining (hooks_c (controllerComponentStep (PollController (Inl err) now) ccm)) =
       localTimeRemaining (hooks_c ccm)
   \<and> lastSyncTimeRef_c (hooks_c (controllerComponentStep (PollController (Inl err) now) ccm)) =
       lastSyncTimeRef_c (hooks_c ccm)"
    by (simp only: a b) simp
  show ?thesis
    using frame failed_step_frame [of err now cm] failed_step_frame_c [of err now ccm]
      countdown_run [of cs cm v] roundStart_run [of cs' cm' v'] timeRemaining_run [of ccs ccm w]
    by blast
qed

text \<open>
  A bidding sample of 42 installs the interval; one tick, a failed poll and two more ticks
  leave 39. The round-starts countdown goes from 12 to 11 and the controller's from 55 to 53
  across a failed poll.
\<close>
theorem failed_poll_keeps_ticking_witness:
  "failedPollOrTick TickCountdown
   \<and> failedPollOrTick (Poll (Inl (ErrorObject ''timeout'')) 15000)
   \<and> countdownIntervalRef
        (auctionComponentRun
           [Poll (Inr \<lparr> currentPhase = Bidding, timeUntilAuctionCloses = 42,
                        timeUntilRoundStarts = 57 \<rparr>) 10000] auctionMount)
   \<and> localCountdown (hooks
        (auctionComponentRun
           [Poll (Inr \<lparr> currentPhase = Bidding, timeUntilAuctionCloses = 42,
                        timeUntilRoundStarts = 57 \<rparr>) 10000] auctionMount)) = Some 42
   \<and> int (count_list [TickCountdown, Poll (Inl (ErrorObject ''timeout'')) 15000, TickCountdown,
                       TickCountdown] TickCountdown) \<le> 42
   \<and> localCountdown (hooks
        (auctionComponentRun
           [TickCountdown, Poll (Inl (ErrorObject ''timeout'')) 15000, TickCountdown, TickCountdown]
           (auctionComponentRun
              [Poll (Inr \<lparr> currentPhase = Bidding, timeUntilAuctionCloses = 42,
                           timeUntilRoundStarts = 57 \<rparr>) 10000] auctionMount))) = Some 39
   \<and> failedPollOrTick (Poll (Inl OtherValue) 15000)
   \<and> failedPollOrTick TickRoundStart
   \<and> roundStartIntervalRef
        (auctionComponentRun
           [Poll (Inr \<lparr> currentPhase = Closing, timeUntilAuctionCloses = 0,
                        timeUntilRoundStarts = 12 \<rparr>) 10000] auctionMount)
   \<and> localRoundStartCountdown (hooks
        (auctionComponentRun
           [Poll (Inl OtherValue) 15000, TickRoundStart]
           (auctionComponentRun
              [Poll (Inr \<lparr> currentPhase = Closing, timeUntilAuctionCloses = 0,
                           timeUntilRoundStarts = 12 \<rparr>) 10000] auctionMount))) = Some 11
   \<and> failedPollOrTick_c (PollController (Inl (ErrorObject ''timeout'')) 15000)
   \<and> failedPollOrTick_c TickTimeRemaining
   \<and> countdownIntervalRef_c
        (controllerComponentRun
           [PollController (Inr \<lparr> currentController = Some ''0xab'',
                                   timeRemainingInRound = 55 \<rparr>) 10000] controllerMount)
   \<and> localTimeRemaining (hooks_c
        (controllerComponentRun
           [PollController (Inl (ErrorObject ''timeout'')) 15000, TickTimeRemaining,
            TickTimeRemaining]
           (controllerComponentRun
              [PollController (Inr \<lparr> currentController = Some ''0xab'',
                                      timeRemainingInRound = 55 \<rparr>) 10000] controllerMount))) =
       Some 53"
  using failed_poll_keeps_ticking
    [where cs = "[TickCountdown, Poll (Inl (ErrorObject ''timeout'')) 15000, TickCountdown,
                  TickCountdown]"
       and cm = "auctionComponentRun
           [Poll (Inr \<lparr> currentPhase = Bidding, timeUntilAuctionCloses = 42,
                        timeUntilRoundStarts = 57 \<rparr>) 10000] auctionMount"
       and v = 42
       and cs' = "[Poll (Inl OtherValue) 15000, TickRoundStart]"
       and cm' = "auctionComponentRun
           [Poll (Inr \<lparr> currentPhase = Closing, timeUntilAuctionCloses = 0,
                        timeUntilRoundStarts = 12 \<rparr>) 10000] auctionMount"
       and v' = 12
       and ccs = "[PollController (Inl (ErrorObject ''timeout'')) 15000, TickTimeRemaining,
                   TickTimeRemaining]"
       and ccm = "controllerComponentRun
           [PollController (Inr \<lparr> currentController = Some ''0xab'',
                                   timeRemainingInRound = 55 \<rparr>) 10000] controllerMount"
       and w = 55
       and err = OtherValue and now = 15000]
  by (simp add: auctionMount_def controllerMount_def auctionCommit_def controllerCommit_def
        intervalEffect_def auction_defs controller_defs)

text \<open>
  Claim C10. When the displayed value of a countdown is exactly 0, a sample for that
  countdown is applied whatever the time since the last sync and whatever the difference
  between the sample and 0.
\<close>
theorem zero_counts_as_absent:
  "(currentPhase s = Bidding \<longrightarrow>
      localCountdown (pollStatus (Inr s) now (st\<lparr> localCountdown := Some 0 \<rparr>)) =
        Some (timeUntilAuctionCloses s))
   \<and> (currentPhase s' = Closing \<or> currentPhase s' = Resolving \<longrightarrow>
      localRoundStartCountdown (pollStatus (Inr s') now (st\<lparr> localRoundStartCountdown := Some 0 \<rparr>)) =
        Some (timeUntilRoundStarts s'))
   \<and> (currentController c \<noteq> None \<and> currentController c \<noteq> Some [] \<longrightarrow>
      localTimeRemaining (pollController (Inr c) now (cst\<lparr> localTimeRemaining := Some 0 \<rparr>)) =
        Some (timeRemainingInRound c))"
  by (auto simp add: pollStatus_def fetchStatus_def statusEffect_def Let_def
        pollController_def fetchController_def controllerEffect_def)

text \<open>
  1000 ms after the last sync, samples of 2, 1 and 2 seconds replace displayed values of 0.
\<close>
theorem zero_counts_as_absent_witness:
  "currentPhase \<lparr> currentPhase = Bidding, timeUntilAuctionCloses = 2, timeUntilRoundStarts = 17 \<rparr> = Bidding
   \<and> (currentPhase \<lparr> currentPhase = Resolving, timeUntilAuctionCloses = 0, timeUntilRoundStarts = 1 \<rparr> = Closing
        \<or> currentPhase \<lparr> currentPhase = Resolving, timeUntilAuctionCloses = 0, timeUntilRoundStarts = 1 \<rparr> = Resolving)
   \<and> currentController \<lparr> currentController = Some ''0xab'', timeRemainingInRound = 2 \<rparr> \<noteq> None
   \<and> currentController \<lparr> currentController = Some ''0xab'', timeRemainingInRound = 2 \<rparr> \<noteq> Some []
   \<and> 2000 - lastSyncTimeRef (auctionInitial\<lparr> lastSyncTimeRef := 1000 \<rparr>) \<le> 3000
   \<and> \<bar>0 - timeUntilAuctionCloses
            \<lparr> currentPhase = Bidding, timeUntilAuctionCloses = 2, timeUntilRoundStarts = 17 \<rparr>\<bar> \<le> 2
   \<and> localCountdown
        (pollStatus (Inr \<lparr> currentPhase = Bidding, timeUntilAuctionCloses = 2, timeUntilRoundStarts = 17 \<rparr>)
           2000 (auctionInitial\<lparr> lastSyncTimeRef := 1000, localCountdown := Some 0 \<rparr>)) = Some 2
   \<and> localRoundStartCountdown
        (pollStatus (Inr \<lparr> currentPhase = Resolving, timeUntilAuctionCloses = 0, timeUntilRoundStarts = 1 \<rparr>)
           2000 (auctionInitial\<lparr> lastSyncTimeRef := 1000, localRoundStartCountdown := Some 0 \<rparr>)) = Some 1
   \<and> localTimeRemaining
        (pollController (Inr \<lparr> currentController = Some ''0xab'', timeRemainingInRound = 2 \<rparr>)
           2000 (controllerInitial\<lparr> lastSyncTimeRef_c := 1000, localTimeRemaining := Some 0 \<rparr>)) = Some 2"
  using zero_counts_as_absent
    [where s = "\<lparr> currentPhase = Bidding, timeUntilAuctionCloses = 2, timeUntilRoundStarts = 17 \<rparr>"
       and s' = "\<lparr> currentPhase = Resolving, timeUntilAuctionCloses = 0, timeUntilRoundStarts = 1 \<rparr>"
       and c = "\<lparr> currentController = Some ''0xab'', timeRemainingInRound = 2 \<rparr>"
       and now = 2000
       and st = "auctionInitial\<lparr> lastSyncTimeRef := 1000 \<rparr>"
       and cst = "controllerInitial\<lparr> lastSyncTimeRef_c := 1000 \<rparr>"]
  by simp

end
